theory Spec2Isabelle
  imports Main
begin

section \<open>JavaScript values at the boundary of the gateway service\<close>

text \<open>
  The request bodies reach \<^verbatim>\<open>GatewayService\<close> as parsed JSON, and the service itself
  tests them with truthiness and \<^verbatim>\<open>Array.isArray\<close>. The fields it tests are therefore
  modelled as JavaScript values. Numbers are restricted to integers and \<^verbatim>\<open>NaN\<close>, the
  elements of an array are strings (as the DTOs declare them), and an object is opaque
  (it has no \<^verbatim>\<open>length\<close> property).
\<close>

datatype jsval =
    JUndefined
  | JNull
  | JBool bool
  | JNum int
  | JNaN
  | JStr string
  | JArr "string list"
  | JObj

text \<open>\<^verbatim>\<open>!v\<close> is \<open>\<not> truthy v\<close>.\<close>

fun truthy :: "jsval \<Rightarrow> bool" where
  "truthy JUndefined = False"
| "truthy JNull = False"
| "truthy (JBool b) = b"
| "truthy (JNum n) = (n \<noteq> 0)"
| "truthy JNaN = False"
| "truthy (JStr s) = (s \<noteq> [])"
| "truthy (JArr xs) = True"
| "truthy JObj = True"

text \<open>\<^verbatim>\<open>a || b\<close>\<close>

definition js_or :: "jsval \<Rightarrow> jsval \<Rightarrow> jsval" where
  "js_or a b = (if truthy a then a else b)"

fun isArray :: "jsval \<Rightarrow> bool" where
  "isArray (JArr xs) = True"
| "isArray v = False"

text \<open>The elements a \<^verbatim>\<open>for ... of\<close> loop visits; only read once \<open>isArray\<close> holds.\<close>

fun elems :: "jsval \<Rightarrow> string list" where
  "elems (JArr xs) = xs"
| "elems v = []"

text \<open>Decimal rendering of a number, as a template literal converts it.\<close>

fun decimal :: "nat \<Rightarrow> string" where
  "decimal n =
     (if n < 10 then [''0123456789'' ! n]
      else decimal (n div 10) @ [''0123456789'' ! (n mod 10)])"

declare decimal.simps [simp del]

text \<open>\<^verbatim>\<open>Array.prototype.join(',')\<close>, which \<^verbatim>\<open>String\<close> applies to an array.\<close>

fun js_join :: "string list \<Rightarrow> string" where
  "js_join [] = []"
| "js_join [x] = x"
| "js_join (x # y # ys) = x @ '','' @ js_join (y # ys)"

text \<open>The string a template literal \<^verbatim>\<open>`${v}`\<close> inserts.\<close>

fun toStr :: "jsval \<Rightarrow> string" where
  "toStr JUndefined = ''undefined''"
| "toStr JNull = ''null''"
| "toStr (JBool b) = (if b then ''true'' else ''false'')"
| "toStr (JNum n) = (if n < 0 then ''-'' @ decimal (nat (- n)) else decimal (nat n))"
| "toStr JNaN = ''NaN''"
| "toStr (JStr s) = s"
| "toStr (JArr xs) = js_join xs"
| "toStr JObj = ''[object Object]''"

section \<open>Arithmetic on JavaScript numbers\<close>

text \<open>
  The counters of a device and the totals the service computes are JavaScript numbers,
  that is IEEE 754 doubles, and \<^verbatim>\<open>+\<close> on them rounds. A number is modelled as an
  integer-valued double \<open>Fin n\<close>, an infinity or \<^verbatim>\<open>NaN\<close>; fractions are left out, as
  the service only ever adds whole counts. A stored \<open>Fin n\<close> stands for a double, that
  is an \<open>n\<close> with \<open>round_double n = n\<close> below.
\<close>

datatype number = Fin int | PosInf | NegInf | NaN

text \<open>The number of binary digits of a positive integer.\<close>

function bit_length :: "int \<Rightarrow> nat" where
  "bit_length n = (if n \<le> 0 then 0 else Suc (bit_length (n div 2)))"
  by pat_completeness auto
termination
  by (relation "measure nat") auto

declare bit_length.simps [simp del]

text \<open>
  The double nearest to an integer, ties to the even significand: an integer of at most
  \<open>2 ^ 53\<close> in magnitude is a double; a larger one keeps its 53 leading binary digits.
\<close>

definition round_double :: "int \<Rightarrow> int" where
  "round_double x =
     (if \<bar>x\<bar> \<le> 2 ^ 53 then x
      else
        let e = bit_length \<bar>x\<bar> - 53;
            q = \<bar>x\<bar> div 2 ^ e;
            r = \<bar>x\<bar> mod 2 ^ e;
            q' = (if 2 * r > 2 ^ e \<or> (2 * r = 2 ^ e \<and> odd q) then q + 1 else q)
        in sgn x * (q' * 2 ^ e))"

text \<open>A rounded result of magnitude \<open>2 ^ 1024\<close> or more overflows to an infinity.\<close>

definition to_double :: "int \<Rightarrow> number" where
  "to_double x =
     (let r = round_double x
      in if r \<ge> 2 ^ 1024 then PosInf else if r \<le> - (2 ^ 1024) then NegInf else Fin r)"

text \<open>\<^verbatim>\<open>a + b\<close> on numbers\<close>

fun js_plus :: "number \<Rightarrow> number \<Rightarrow> number" where
  "js_plus (Fin a) (Fin b) = to_double (a + b)"
| "js_plus NaN b = NaN"
| "js_plus a NaN = NaN"
| "js_plus PosInf NegInf = NaN"
| "js_plus NegInf PosInf = NaN"
| "js_plus PosInf b = PosInf"
| "js_plus a PosInf = PosInf"
| "js_plus NegInf b = NegInf"
| "js_plus a NegInf = NegInf"

text \<open>\<^verbatim>\<open>a > 0\<close> on a number\<close>

fun positive :: "number \<Rightarrow> bool" where
  "positive (Fin n) = (0 < n)"
| "positive PosInf = True"
| "positive NegInf = False"
| "positive NaN = False"

section \<open>Errors\<close>

text \<open>
  Firebase's \<^verbatim>\<open>BatchResponse\<close>: the per-item outcomes and the two counts the service
  reads.
\<close>

record SendResponse =
  sr_success :: bool
  messageId :: "string option"

record BatchResponse =
  responses :: "SendResponse list"
  successCount :: int
  failureCount :: int

text \<open>
  An exception of a collaborator (billing, persistence, transport) is an opaque cause.
  \<open>HttpException success error additionalInfo status\<close> is the exception the service
  itself throws, with the fields of its response body; \<open>TypeError\<close> is the run-time
  error of reading a property of \<^verbatim>\<open>undefined\<close> or \<^verbatim>\<open>null\<close>; \<open>Thrown c\<close> is a
  collaborator's exception that nothing caught.
\<close>

type_synonym cause = string

datatype info = NoInfo | ResponseInfo BatchResponse | ErrorInfo exn
and exn =
    HttpException "bool option" string info nat
  | TypeError
  | Thrown cause

abbreviation BAD_REQUEST :: nat where "BAD_REQUEST \<equiv> 400"
abbreviation NOT_FOUND :: nat where "NOT_FOUND \<equiv> 404"

text \<open>
  \<^verbatim>\<open>v.length\<close>: throws on \<^verbatim>\<open>undefined\<close> and \<^verbatim>\<open>null\<close>, counts a string or an array,
  and is \<^verbatim>\<open>undefined\<close> on every other value.
\<close>

fun js_length :: "jsval \<Rightarrow> exn + jsval" where
  "js_length JUndefined = Inl TypeError"
| "js_length JNull = Inl TypeError"
| "js_length (JStr s) = Inr (JNum (int (length s)))"
| "js_length (JArr xs) = Inr (JNum (int (length xs)))"
| "js_length v = Inr JUndefined"

text \<open>
  \<^verbatim>\<open>a + b\<close> where \<open>a\<close> is a number or \<^verbatim>\<open>NaN\<close> and \<open>b\<close> is a number or
  \<^verbatim>\<open>undefined\<close>, the only operands the reducer of line 289 meets.
\<close>

fun js_add :: "jsval \<Rightarrow> jsval \<Rightarrow> jsval" where
  "js_add (JNum a) (JNum b) = JNum (a + b)"
| "js_add a b = JNaN"

text \<open>
  \<^verbatim>\<open>Array.prototype.flat()\<close> at depth one: an array is replaced by its elements and
  every other value stays one element.
\<close>

fun flat :: "jsval list \<Rightarrow> jsval list" where
  "flat [] = []"
| "flat (JArr xs # vs) = map JStr xs @ flat vs"
| "flat (v # vs) = v # flat vs"

section \<open>getRecipientsPreview\<close>

text \<open>
  \<^verbatim>\<open>private getRecipientsPreview(recipients: string[]): string\<close>, lines 502--516. At
  run time the elements are whatever the caller passes (\<open>sendBulkSMS\<close> passes the
  elements \<open>flat\<close> leaves), so one element is returned as it is and the template
  literals convert with \<open>toStr\<close>. The index reads \<^verbatim>\<open>recipients[0..2]\<close> are all
  within the length tested by the branch that makes them.
\<close>

definition getRecipientsPreview :: "jsval list \<Rightarrow> jsval" where
  "getRecipientsPreview recipients =
     (if length recipients = 0 then JNull
      else if length recipients = 1 then recipients ! 0
      else if length recipients = 2 then
        JStr (toStr (recipients ! 0) @ '' and '' @ toStr (recipients ! 1))
      else if length recipients = 3 then
        JStr (toStr (recipients ! 0) @ '', '' @ toStr (recipients ! 1) @ '', and ''
              @ toStr (recipients ! 2))
      else
        JStr (toStr (recipients ! 0) @ '', '' @ toStr (recipients ! 1) @ '', and ''
              @ toStr (JNum (int (length recipients) - 2)) @ '' others''))"

section \<open>Documents, collaborators and the state of the service\<close>

datatype SMSType = SENT | RECEIVED

text \<open>
  A \<^verbatim>\<open>Device\<close> document with the fields the service reads. A counter is a number,
  and an absent counter is \<open>None\<close>.
\<close>

record Device =
  device_id :: string
  device_user :: string
  enabled :: bool
  fcmToken :: string
  sentSMSCount :: "number option"
  receivedSMSCount :: "number option"

record SMSBatch =
  batch_id :: nat
  batch_device :: string
  batch_message :: jsval
  recipientCount :: jsval
  recipientPreview :: jsval

datatype date = Date int

record SMS =
  sms_id :: nat
  sms_device :: string
  smsBatch :: "nat option"
  sms_message :: jsval
  sms_type :: SMSType
  recipient :: jsval
  sender :: jsval
  requestedAt :: "date option"
  receivedAt :: "date option"

text \<open>
  The object of lines 177--186 that is stringified into the data of a
  \<^verbatim>\<open>firebase-admin\<close> message, and the message of lines 189--197.
\<close>

record updatedSMSData =
  smsId :: nat
  smsBatchId :: nat
  data_message :: jsval
  data_recipients :: "string list"
  data_smsBody :: jsval
  data_receivers :: "string list"

record Message =
  smsData :: updatedSMSData
  token :: string
  priority :: string

datatype action = send_sms | bulk_send_sms | receive_sms

datatype counter = Inc_sentSMSCount | Inc_receivedSMSCount

datatype WebhookEvent = MESSAGE_RECEIVED

record notification =
  note_sms :: SMS
  note_user :: string
  note_event :: WebhookEvent

text \<open>
  The collaborators, as parameters. \<open>canPerformAction\<close> is the billing service
  (\<open>None\<close>: it resolves; \<open>Some c\<close>: it throws \<open>c\<close>); \<open>batchCreate\<close> and \<open>smsCreate\<close>
  say whether the store rejects a document; \<open>sendEach\<close> is the transport, whose answer
  may differ from call to call, so it also takes the number of calls made before;
  \<open>clock\<close> is \<^verbatim>\<open>new Date()\<close> at the creation of the n-th message;
  \<open>getUserApiKeys\<close> is the auth service.
\<close>

record env =
  canPerformAction :: "string \<Rightarrow> action \<Rightarrow> jsval \<Rightarrow> cause option"
  batchCreate :: "SMSBatch \<Rightarrow> cause option"
  smsCreate :: "SMS \<Rightarrow> cause option"
  sendEach :: "nat \<Rightarrow> Message list \<Rightarrow> cause + BatchResponse"
  clock :: "nat \<Rightarrow> date"
  getUserApiKeys :: "string \<Rightarrow> string list"

text \<open>
  The three collections, and a log of each effect on a collaborator in the order the
  service makes it: the calls of the billing service, the calls of the transport, and the
  detached tasks (counter increments by device id, webhook notifications) that the
  service starts and does not await.
\<close>

record world =
  devices :: "Device list"
  smsBatches :: "SMSBatch list"
  smsList :: "SMS list"
  billingCalls :: "(string \<times> action \<times> jsval) list"
  fcmCalls :: "Message list list"
  counterUpdates :: "(string \<times> counter \<times> int) list"
  webhookCalls :: "notification list"

definition findById :: "world \<Rightarrow> string \<Rightarrow> Device option" where
  "findById w deviceId = find (\<lambda>d. device_id d = deviceId) (devices w)"

section \<open>deleteDevice\<close>

text \<open>Lines 86--100. The acknowledgement \<^verbatim>\<open>{}\<close> is \<open>()\<close>.\<close>

definition deleteDevice :: "world \<Rightarrow> string \<Rightarrow> (exn + unit) \<times> world" where
  "deleteDevice w deviceId =
     (case findById w deviceId of
        None \<Rightarrow> (Inl (HttpException None ''Device not found'' NoInfo NOT_FOUND), w)
      | Some device \<Rightarrow> (Inr (), w))"

section \<open>sendSMS\<close>

text \<open>
  The loop of lines 168--199 (and again 310--341): one stored message and one transport
  message for each recipient, in order. A rejected document is an exception that nothing
  here catches; the documents stored before it stay.
\<close>

fun createMessages ::
  "env \<Rightarrow> Device \<Rightarrow> SMSBatch \<Rightarrow> jsval \<Rightarrow> string list \<Rightarrow> world \<Rightarrow> Message list
     \<Rightarrow> (exn + Message list) \<times> world" where
  "createMessages E device batch message [] w fcmMessages = (Inr fcmMessages, w)"
| "createMessages E device batch message (r # rest) w fcmMessages =
     (let sms = \<lparr> sms_id = length (smsList w), sms_device = device_id device,
                  smsBatch = Some (batch_id batch), sms_message = message, sms_type = SENT,
                  recipient = JStr r, sender = JUndefined,
                  requestedAt = Some (clock E (length (smsList w))), receivedAt = None \<rparr>
      in case smsCreate E sms of
           Some c \<Rightarrow> (Inl (Thrown c), w)
         | None \<Rightarrow>
             createMessages E device batch message rest
               (w\<lparr>smsList := smsList w @ [sms]\<rparr>)
               (fcmMessages @
                 [\<lparr> smsData = \<lparr> smsId = sms_id sms, smsBatchId = batch_id batch,
                                 data_message = message, data_recipients = [r],
                                 data_smsBody = message, data_receivers = [r] \<rparr>,
                     token = fcmToken device, priority = ''high'' \<rparr>]))"

record SendSMSInputDTO =
  message :: jsval
  smsBody :: jsval
  recipients :: jsval
  receivers :: jsval

definition notEnabled :: exn where
  "notEnabled =
     HttpException (Some False) ''Device does not exist or is not enabled'' NoInfo BAD_REQUEST"

text \<open>
  The body of the \<^verbatim>\<open>try\<close> of lines 202--226: the exception of line 207 is thrown
  inside it.
\<close>

definition sendSMS_try ::
  "env \<Rightarrow> string \<Rightarrow> Message list \<Rightarrow> world \<Rightarrow> (exn + BatchResponse) \<times> world" where
  "sendSMS_try E deviceId fcmMessages w =
     (let w1 = w\<lparr>fcmCalls := fcmCalls w @ [fcmMessages]\<rparr>
      in case sendEach E (length (fcmCalls w)) fcmMessages of
           Inl c \<Rightarrow> (Inl (Thrown c), w1)
         | Inr response \<Rightarrow>
             if successCount response = 0 then
               (Inl (HttpException (Some False) ''Failed to send SMS'' (ResponseInfo response)
                       BAD_REQUEST), w1)
             else
               (Inr response,
                w1\<lparr>counterUpdates := counterUpdates w1 @
                      [(deviceId, Inc_sentSMSCount, successCount response)]\<rparr>))"

text \<open>
  Lines 146--236: the batch record, the messages, the transport call. The
  \<^verbatim>\<open>catch\<close> of line 227 wraps whatever the \<^verbatim>\<open>try\<close> threw.
\<close>

definition sendSMS_dispatch ::
  "env \<Rightarrow> string \<Rightarrow> Device \<Rightarrow> jsval \<Rightarrow> jsval \<Rightarrow> jsval \<Rightarrow> world
     \<Rightarrow> (exn + BatchResponse) \<times> world" where
  "sendSMS_dispatch E deviceId device msg rcpts n w =
     (let batch = \<lparr> batch_id = length (smsBatches w), batch_device = device_id device,
                    batch_message = msg, recipientCount = n,
                    recipientPreview = getRecipientsPreview (map JStr (elems rcpts)) \<rparr>
      in case batchCreate E batch of
           Some c \<Rightarrow>
             (Inl (HttpException (Some False) ''Failed to create SMS batch''
                     (ErrorInfo (Thrown c)) BAD_REQUEST), w)
         | None \<Rightarrow>
             (case createMessages E device batch msg (elems rcpts)
                     (w\<lparr>smsBatches := smsBatches w @ [batch]\<rparr>) [] of
                (Inl e, w2) \<Rightarrow> (Inl e, w2)
              | (Inr fcmMessages, w2) \<Rightarrow>
                  (case sendSMS_try E deviceId fcmMessages w2 of
                     (Inl e, w3) \<Rightarrow>
                       (Inl (HttpException (Some False) ''Failed to send SMS''
                               (ErrorInfo e) BAD_REQUEST), w3)
                   | (Inr response, w3) \<Rightarrow> (Inr response, w3))))"

text \<open>Lines 102--142, then the dispatch.\<close>

definition sendSMS ::
  "env \<Rightarrow> world \<Rightarrow> string \<Rightarrow> SendSMSInputDTO \<Rightarrow> (exn + BatchResponse) \<times> world" where
  "sendSMS E w deviceId dto =
     (case findById w deviceId of
        None \<Rightarrow> (Inl notEnabled, w)
      | Some device \<Rightarrow>
          (if \<not> enabled device then (Inl notEnabled, w)
           else
             let msg = js_or (message dto) (smsBody dto);
                 rcpts = js_or (recipients dto) (receivers dto)
             in (case js_length rcpts of
                   Inl e \<Rightarrow> (Inl e, w)
                 | Inr n \<Rightarrow>
                     (let w1 = w\<lparr>billingCalls := billingCalls w @
                                    [(device_user device, send_sms, n)]\<rparr>
                      in (case canPerformAction E (device_user device) send_sms n of
                            Some c \<Rightarrow> (Inl (Thrown c), w1)
                          | None \<Rightarrow>
                              (if \<not> truthy msg then
                                 (Inl (HttpException (Some False) ''Message cannot be blank''
                                         NoInfo BAD_REQUEST), w1)
                               else if \<not> isArray rcpts \<or> n = JNum 0 then
                                 (Inl (HttpException (Some False) ''Invalid recipients''
                                         NoInfo BAD_REQUEST), w1)
                               else sendSMS_dispatch E deviceId device msg rcpts n w1))))))"

section \<open>sendBulkSMS\<close>

record SendBulkSMSInputDTO =
  messageTemplate :: jsval
  messages :: "SendSMSInputDTO list option"

record bulkResponse =
  success :: bool
  total_successCount :: number
  total_failureCount :: number
  fcmResponses :: "BatchResponse list"

text \<open>
  \<^verbatim>\<open>messages.map((m) => m.recipients.length)\<close>, line 288: the first \<^verbatim>\<open>undefined\<close> or
  \<^verbatim>\<open>null\<close> recipient list throws.
\<close>

fun map_length :: "jsval list \<Rightarrow> exn + jsval list" where
  "map_length [] = Inr []"
| "map_length (v # vs) =
     (case js_length v of
        Inl e \<Rightarrow> Inl e
      | Inr n \<Rightarrow> (case map_length vs of Inl e \<Rightarrow> Inl e | Inr ns \<Rightarrow> Inr (n # ns)))"

text \<open>
  The loop of lines 296--362. A message that is skipped changes nothing; an exception of
  the transport is logged and the loop goes on; an exception of the store is not caught.
\<close>

fun bulkLoop ::
  "env \<Rightarrow> string \<Rightarrow> Device \<Rightarrow> SMSBatch \<Rightarrow> SendSMSInputDTO list \<Rightarrow> world \<Rightarrow> BatchResponse list
     \<Rightarrow> (exn + BatchResponse list) \<times> world" where
  "bulkLoop E deviceId device batch [] w rs = (Inr rs, w)"
| "bulkLoop E deviceId device batch (d # rest) w rs =
     (if \<not> truthy (message d) then bulkLoop E deviceId device batch rest w rs
      else if \<not> isArray (recipients d) \<or> length (elems (recipients d)) = 0 then
        bulkLoop E deviceId device batch rest w rs
      else
        (case createMessages E device batch (message d) (elems (recipients d)) w [] of
           (Inl e, w1) \<Rightarrow> (Inl e, w1)
         | (Inr fcmMessages, w1) \<Rightarrow>
             (let w2 = w1\<lparr>fcmCalls := fcmCalls w1 @ [fcmMessages]\<rparr>
              in (case sendEach E (length (fcmCalls w1)) fcmMessages of
                    Inl c \<Rightarrow> bulkLoop E deviceId device batch rest w2 rs
                  | Inr response \<Rightarrow>
                      bulkLoop E deviceId device batch rest
                        (w2\<lparr>counterUpdates := counterUpdates w2 @
                               [(deviceId, Inc_sentSMSCount, successCount response)]\<rparr>)
                        (rs @ [response])))))"

text \<open>Lines 282--379, once the checks have passed.\<close>

definition sendBulkSMS_dispatch ::
  "env \<Rightarrow> string \<Rightarrow> Device \<Rightarrow> jsval \<Rightarrow> SendSMSInputDTO list \<Rightarrow> world
     \<Rightarrow> (exn + bulkResponse) \<times> world" where
  "sendBulkSMS_dispatch E deviceId device template msgs w =
     (case map_length (map recipients msgs) of
        Inl e \<Rightarrow> (Inl e, w)
      | Inr ns \<Rightarrow>
          (let batch = \<lparr> batch_id = length (smsBatches w), batch_device = device_id device,
                         batch_message = template,
                         recipientCount = foldl js_add (JNum 0) ns,
                         recipientPreview = getRecipientsPreview (flat (map recipients msgs)) \<rparr>
           in (case batchCreate E batch of
                 Some c \<Rightarrow> (Inl (Thrown c), w)
               | None \<Rightarrow>
                   (case bulkLoop E deviceId device batch msgs
                           (w\<lparr>smsBatches := smsBatches w @ [batch]\<rparr>) [] of
                      (Inl e, w1) \<Rightarrow> (Inl e, w1)
                    | (Inr rs, w1) \<Rightarrow>
                        (let sc = foldl (\<lambda>acc m. js_plus acc (Fin (successCount m))) (Fin 0) rs;
                             fc = foldl (\<lambda>acc m. js_plus acc (Fin (failureCount m))) (Fin 0) rs
                         in (Inr \<lparr> success = positive sc, total_successCount = sc,
                                    total_failureCount = fc, fcmResponses = rs \<rparr>, w1))))))"

text \<open>
  Lines 239--280. A \<^verbatim>\<open>messages\<close> that is not an array (\<open>None\<close>) has no \<^verbatim>\<open>map\<close>, so
  line 255 throws before the billing service is called; this leaves nothing for the test
  \<^verbatim>\<open>!Array.isArray(body.messages)\<close> of line 259 to find. Each element of the array is an
  object.
\<close>

definition sendBulkSMS ::
  "env \<Rightarrow> world \<Rightarrow> string \<Rightarrow> SendBulkSMSInputDTO \<Rightarrow> (exn + bulkResponse) \<times> world" where
  "sendBulkSMS E w deviceId body =
     (case findById w deviceId of
        None \<Rightarrow> (Inl notEnabled, w)
      | Some device \<Rightarrow>
          (if \<not> enabled device then (Inl notEnabled, w)
           else
             (case messages body of
                None \<Rightarrow> (Inl TypeError, w)
              | Some msgs \<Rightarrow>
                  (let total = length (flat (map recipients msgs));
                       w1 = w\<lparr>billingCalls := billingCalls w @
                                 [(device_user device, bulk_send_sms, JNum (int total))]\<rparr>
                   in (case canPerformAction E (device_user device) bulk_send_sms
                               (JNum (int total)) of
                         Some c \<Rightarrow> (Inl (Thrown c), w1)
                       | None \<Rightarrow>
                           (if length msgs = 0 \<or> total = 0 then
                              (Inl (HttpException (Some False) ''Invalid message list'' NoInfo
                                      BAD_REQUEST), w1)
                            else if total > 50 then
                              (Inl (HttpException (Some False)
                                      ''Maximum of 50 recipients per batch is allowed'' NoInfo
                                      BAD_REQUEST), w1)
                            else
                              sendBulkSMS_dispatch E deviceId device (messageTemplate body)
                                msgs w1))))))"

section \<open>receiveSMS\<close>






section \<open>getStatsForUser\<close>






section \<open>Concrete collaborators and states\<close>

text \<open>
  A billing service that allows everything, a store that accepts every document, and a
  transport that delivers every message (\<open>env_ok\<close>); the same with a transport that
  delivers none (\<open>env_rejecting\<close>); the same with a store that refuses batch records
  (\<open>env_no_batch\<close>).
\<close>

definition env_ok :: env where
  "env_ok =
     \<lparr> canPerformAction = (\<lambda>u a n. None),
       batchCreate = (\<lambda>b. None),
       smsCreate = (\<lambda>s. None),
       sendEach = (\<lambda>k ms. Inr \<lparr> responses = map (\<lambda>m. \<lparr> sr_success = True, messageId = None \<rparr>) ms,
                                   successCount = int (length ms), failureCount = 0 \<rparr>),
       clock = (\<lambda>n. Date (int n)),
       getUserApiKeys = (\<lambda>u. [''key1'', ''key2'']) \<rparr>"

definition env_rejecting :: env where
  "env_rejecting =
     env_ok\<lparr> sendEach :=
       (\<lambda>k ms. Inr \<lparr> responses = map (\<lambda>m. \<lparr> sr_success = False, messageId = None \<rparr>) ms,
                      successCount = 0, failureCount = int (length ms) \<rparr>) \<rparr>"

definition env_no_batch :: env where
  "env_no_batch = env_ok\<lparr> batchCreate := (\<lambda>b. Some ''store down'') \<rparr>"

text \<open>A billing service that refuses everything.\<close>

definition env_no_quota :: env where
  "env_no_quota = env_ok\<lparr> canPerformAction := (\<lambda>u a n. Some ''quota exceeded'') \<rparr>"

definition phone :: Device where
  "phone = \<lparr> device_id = ''d1'', device_user = ''u1'', enabled = True, fcmToken = ''tok1'',
             sentSMSCount = Some (Fin 5), receivedSMSCount = None \<rparr>"

definition disabled_phone :: Device where
  "disabled_phone = \<lparr> device_id = ''d2'', device_user = ''u1'', enabled = False,
                      fcmToken = ''tok2'', sentSMSCount = None,
                      receivedSMSCount = Some (Fin 3) \<rparr>"




definition world0 :: world where
  "world0 = \<lparr> devices = [phone, disabled_phone], smsBatches = [], smsList = [],
              billingCalls = [], fcmCalls = [], counterUpdates = [], webhookCalls = [] \<rparr>"




text \<open>Single-send bodies: two recipients; no recipient list under either name; a string
  where the list should be.\<close>

definition send_two :: SendSMSInputDTO where
  "send_two = \<lparr> message = JStr ''hi'', smsBody = JUndefined,
                recipients = JArr [''+15551234'', ''+15555678''], receivers = JUndefined \<rparr>"

definition send_missing :: SendSMSInputDTO where
  "send_missing = \<lparr> message = JStr ''hi'', smsBody = JUndefined,
                    recipients = JUndefined, receivers = JUndefined \<rparr>"

definition send_string :: SendSMSInputDTO where
  "send_string = \<lparr> message = JStr ''hi'', smsBody = JUndefined,
                   recipients = JStr ''+15551234'', receivers = JUndefined \<rparr>"

text \<open>
  Bulk bodies: one message to 51 recipients; a message that names its recipients only in
  the legacy field \<open>receivers\<close> (which \<open>sendSMS\<close> accepts and \<open>sendBulkSMS\<close> does not
  read), followed by a valid one.
\<close>

definition bulk_51 :: SendBulkSMSInputDTO where
  "bulk_51 = \<lparr> messageTemplate = JStr ''hello'',
               messages = Some [\<lparr> message = JStr ''hello'', smsBody = JUndefined,
                                  recipients = JArr (replicate 51 ''+15551234''),
                                  receivers = JUndefined \<rparr>] \<rparr>"

definition bulk_legacy :: SendBulkSMSInputDTO where
  "bulk_legacy = \<lparr> messageTemplate = JStr ''hello'',
                   messages = Some [\<lparr> message = JStr ''hi'', smsBody = JUndefined,
                                      recipients = JUndefined,
                                      receivers = JArr [''+15550000''] \<rparr>,
                                    \<lparr> message = JStr ''yo'', smsBody = JUndefined,
                                      recipients = JArr [''+15551234''],
                                      receivers = JUndefined \<rparr>] \<rparr>"

section \<open>Auxiliary facts\<close>

lemma nat_two_plus: "nat (2 + int n) = Suc (Suc n)"
  by arith

lemma to_double_exact: "\<bar>x\<bar> \<le> 2 ^ 53 \<Longrightarrow> to_double x = Fin x"
proof -
  assume a: "\<bar>x\<bar> \<le> 2 ^ 53"
  have "(2::int) ^ 53 < 2 ^ 1024" by (rule power_strict_increasing) simp_all
  with a have "x < 2 ^ 1024" and "- (2 ^ 1024) < x" by linarith+
  with a show ?thesis by (simp add: to_double_def round_double_def Let_def)
qed

lemma foldl_js_plus_exact:
  assumes "\<forall>x \<in> set xs. g x = Fin (f x)"
      and "\<bar>a\<bar> + (\<Sum>x\<leftarrow>xs. \<bar>f x\<bar>) \<le> 2 ^ 53"
  shows "foldl (\<lambda>acc x. js_plus acc (g x)) (Fin a) xs = Fin (a + (\<Sum>x\<leftarrow>xs. f x))"
  using assms
proof (induction xs arbitrary: a)
  case Nil
  then show ?case by simp
next
  case (Cons x xs)
  have nonneg: "0 \<le> (\<Sum>y\<leftarrow>xs. \<bar>f y\<bar>)" by (rule sum_list_nonneg) auto
  have gx: "g x = Fin (f x)" using Cons.prems(1) by simp
  have small: "\<bar>a + f x\<bar> \<le> 2 ^ 53" using Cons.prems(2) nonneg by simp
  have step: "js_plus (Fin a) (g x) = Fin (a + f x)"
    using gx to_double_exact [OF small] by simp
  have rest: "\<bar>a + f x\<bar> + (\<Sum>y\<leftarrow>xs. \<bar>f y\<bar>) \<le> 2 ^ 53"
    using Cons.prems(2) by simp
  have "foldl (\<lambda>acc y. js_plus acc (g y)) (Fin (a + f x)) xs = Fin (a + f x + (\<Sum>y\<leftarrow>xs. f y))"
    using Cons.prems(1) rest by (intro Cons.IH) auto
  with step show ?case by (simp add: add.assoc)
qed


lemma findById_world0:
  "findById world0 ''d1'' = Some phone" "findById world0 ''d2'' = Some disabled_phone"
  "findById world0 ''d9'' = None"
  by (simp_all add: findById_def world0_def phone_def disabled_phone_def)

lemma deleteDevice_snd: "snd (deleteDevice w deviceId) = w"
  by (simp add: deleteDevice_def split: option.splits)


lemma createMessages_frame:
  "createMessages E dev b m rs w acc = (r, w') \<Longrightarrow>
     devices w' = devices w \<and> smsBatches w' = smsBatches w \<and> billingCalls w' = billingCalls w
     \<and> fcmCalls w' = fcmCalls w \<and> counterUpdates w' = counterUpdates w
     \<and> webhookCalls w' = webhookCalls w"
proof (induction rs arbitrary: w acc)
  case Nil
  then show ?case by simp
next
  case (Cons a rs)
  show ?case
  proof (cases "smsCreate E \<lparr> sms_id = length (smsList w), sms_device = device_id dev,
                  smsBatch = Some (batch_id b), sms_message = m, sms_type = SENT,
                  recipient = JStr a, sender = JUndefined,
                  requestedAt = Some (clock E (length (smsList w))), receivedAt = None \<rparr>")
    case None
    with Cons.prems show ?thesis
      by (simp add: Let_def) (drule Cons.IH, simp)
  next
    case (Some c)
    with Cons.prems show ?thesis by (auto simp: Let_def)
  qed
qed

lemma createMessages_total:
  "\<forall>s. smsCreate E s = None \<Longrightarrow>
     \<exists>ms w'. createMessages E dev b m rs w acc = (Inr ms, w')
        \<and> length ms = length acc + length rs
        \<and> length (smsList w') = length (smsList w) + length rs"
proof (induction rs arbitrary: w acc)
  case Nil
  then show ?case by simp
next
  case (Cons a rs)
  let ?sms = "\<lparr> sms_id = length (smsList w), sms_device = device_id dev,
                  smsBatch = Some (batch_id b), sms_message = m, sms_type = SENT,
                  recipient = JStr a, sender = JUndefined,
                  requestedAt = Some (clock E (length (smsList w))), receivedAt = None \<rparr>"
  let ?msg = "\<lparr> smsData = \<lparr> smsId = length (smsList w), smsBatchId = batch_id b,
                                 data_message = m, data_recipients = [a],
                                 data_smsBody = m, data_receivers = [a] \<rparr>,
                     token = fcmToken dev, priority = ''high'' \<rparr>"
  from Cons.IH [OF Cons.prems, of "w\<lparr>smsList := smsList w @ [?sms]\<rparr>" "acc @ [?msg]"]
  obtain ms w' where
    "createMessages E dev b m rs (w\<lparr>smsList := smsList w @ [?sms]\<rparr>) (acc @ [?msg]) = (Inr ms, w')"
    "length ms = length (acc @ [?msg]) + length rs"
    "length (smsList w') = length (smsList (w\<lparr>smsList := smsList w @ [?sms]\<rparr>)) + length rs"
    by blast
  with Cons.prems show ?case by (simp add: Let_def)
qed

lemma world0_fields:
  "smsBatches world0 = []" "smsList world0 = []" "billingCalls world0 = []"
  "fcmCalls world0 = []" "counterUpdates world0 = []" "webhookCalls world0 = []"
  by (simp_all add: world0_def)

lemma sendSMS_valid:
  assumes "findById w deviceId = Some device" and "enabled device"
      and "js_or (recipients dto) (receivers dto) = JArr rs" and "rs \<noteq> []"
      and "truthy (js_or (message dto) (smsBody dto))"
      and "canPerformAction E (device_user device) send_sms (JNum (int (length rs))) = None"
  shows "sendSMS E w deviceId dto =
           sendSMS_dispatch E deviceId device (js_or (message dto) (smsBody dto)) (JArr rs)
             (JNum (int (length rs)))
             (w\<lparr>billingCalls := billingCalls w @
                   [(device_user device, send_sms, JNum (int (length rs)))]\<rparr>)"
  using assms by (simp add: sendSMS_def Let_def)






section \<open>The recipient preview\<close>

text \<open>
  Claim C8. The preview is a function of the ordered recipient list alone: no recipient
  gives \<^verbatim>\<open>null\<close>, one gives the recipient itself, two give \<open>A and B\<close>, three give
  \<open>A, B, and C\<close>, and four or more give \<open>A, B, and N others\<close> with \<open>N\<close> the
  number of recipients less two, written in decimal; the recipients shown are the first
  ones, in the order of the list.
\<close>

theorem getRecipientsPreview_shape:
  "getRecipientsPreview [] = JNull
   \<and> getRecipientsPreview [JStr a] = JStr a
   \<and> getRecipientsPreview [JStr a, JStr b] = JStr (a @ '' and '' @ b)
   \<and> getRecipientsPreview [JStr a, JStr b, JStr c] = JStr (a @ '', '' @ b @ '', and '' @ c)
   \<and> getRecipientsPreview (JStr a # JStr b # JStr c # JStr d # map JStr rest) =
       JStr (a @ '', '' @ b @ '', and ''
             @ decimal (length (a # b # c # d # rest) - 2) @ '' others'')"
  by (simp add: getRecipientsPreview_def nat_two_plus)

theorem getRecipientsPreview_shape_witness:
  "getRecipientsPreview (map JStr [''A'', ''B'', ''C'', ''D'', ''E'']) = JStr ''A, B, and 3 others''"
  using getRecipientsPreview_shape [of "''A''" "''B''" "''C''" "''D''" "[''E'']"]
  by (simp add: decimal.simps)

section \<open>Statistics of a user\<close>




section \<open>Deleting a device\<close>

text \<open>
  Claim C3, as stated, fails: \<open>deleteDevice\<close> does not succeed for every device id. For
  an id that no device has it throws the 404 exception \<open>Device not found\<close>.
\<close>

theorem deleteDevice_missing_counterexample:
  "fst (deleteDevice world0 ''d9'') = Inl (HttpException None ''Device not found'' NoInfo NOT_FOUND)
   \<and> fst (deleteDevice world0 ''d9'') \<noteq> Inr ()"
  by (simp add: deleteDevice_def findById_world0)

text \<open>
  Claim C3, amended. For every id of an existing device, \<open>deleteDevice\<close> succeeds with
  the empty acknowledgement and changes nothing: after any number \<open>n\<close> of repeated
  deletes the state is the same, the device record is still there unchanged, and a
  further delete returns the same acknowledgement.
\<close>

theorem deleteDevice_keeps_record:
  assumes "findById w deviceId = Some device"
  shows "deleteDevice w deviceId = (Inr (), w)
         \<and> ((\<lambda>v. snd (deleteDevice v deviceId)) ^^ n) w = w
         \<and> deleteDevice (((\<lambda>v. snd (deleteDevice v deviceId)) ^^ n) w) deviceId = (Inr (), w)
         \<and> findById (((\<lambda>v. snd (deleteDevice v deviceId)) ^^ n) w) deviceId = Some device"
proof -
  have one: "deleteDevice w deviceId = (Inr (), w)"
    using assms by (simp add: deleteDevice_def)
  have rep: "((\<lambda>v. snd (deleteDevice v deviceId)) ^^ n) w = w"
    by (induction n) (simp_all add: deleteDevice_snd)
  show ?thesis using one rep assms by simp
qed

theorem deleteDevice_keeps_record_witness:
  "deleteDevice world0 ''d1'' = (Inr (), world0)
   \<and> deleteDevice (((\<lambda>v. snd (deleteDevice v ''d1'')) ^^ 3) world0) ''d1'' = (Inr (), world0)
   \<and> findById (((\<lambda>v. snd (deleteDevice v ''d1'')) ^^ 3) world0) ''d1'' = Some phone"
  using deleteDevice_keeps_record [of world0 "''d1''" phone 3] by (simp add: findById_world0)

section \<open>The time of an inbound message\<close>




section \<open>Single send: failure of the batch record\<close>

text \<open>
  Claim C4. For every single-send request that passes the checks and whose batch record
  the store refuses with cause \<open>c\<close>, \<open>sendSMS\<close> fails with the error
  \<open>Failed to create SMS batch\<close> that carries \<open>c\<close>; the only effect is the recorded
  call of the billing service: no message is stored, no batch is stored, the transport is
  not called and no counter increment is started.
\<close>

theorem sendSMS_batch_failure:
  fixes E w deviceId dto device rs c
  defines "msg \<equiv> js_or (message dto) (smsBody dto)"
  defines "w1 \<equiv> w\<lparr>billingCalls := billingCalls w @
                     [(device_user device, send_sms, JNum (int (length rs)))]\<rparr>"
  assumes "findById w deviceId = Some device" and "enabled device"
      and "js_or (recipients dto) (receivers dto) = JArr rs" and "rs \<noteq> []"
      and "truthy msg"
      and "canPerformAction E (device_user device) send_sms (JNum (int (length rs))) = None"
      and "batchCreate E \<lparr> batch_id = length (smsBatches w), batch_device = device_id device,
                            batch_message = msg, recipientCount = JNum (int (length rs)),
                            recipientPreview = getRecipientsPreview (map JStr rs) \<rparr> = Some c"
  shows "sendSMS E w deviceId dto =
           (Inl (HttpException (Some False) ''Failed to create SMS batch'' (ErrorInfo (Thrown c))
                   BAD_REQUEST), w1)
         \<and> smsList w1 = smsList w \<and> smsBatches w1 = smsBatches w \<and> fcmCalls w1 = fcmCalls w
         \<and> counterUpdates w1 = counterUpdates w"
proof -
  have "sendSMS E w deviceId dto = sendSMS_dispatch E deviceId device msg (JArr rs)
          (JNum (int (length rs))) w1"
    using assms(3-8) unfolding msg_def w1_def by (rule sendSMS_valid)
  then show ?thesis
    using assms(9) by (simp add: sendSMS_dispatch_def Let_def w1_def)
qed

theorem sendSMS_batch_failure_witness:
  "sendSMS env_no_batch world0 ''d1'' send_two =
     (Inl (HttpException (Some False) ''Failed to create SMS batch'' (ErrorInfo (Thrown ''store down''))
             BAD_REQUEST),
      world0\<lparr>billingCalls := [(''u1'', send_sms, JNum 2)]\<rparr>)"
  using sendSMS_batch_failure [of world0 "''d1''" phone send_two "[''+15551234'', ''+15555678'']"
      env_no_batch "''store down''"]
  by (simp add: findById_def phone_def disabled_phone_def send_two_def js_or_def env_no_batch_def
      env_ok_def world0_def)

section \<open>Single send: no delivery\<close>

text \<open>
  Claim C5. For every single-send request that reaches the transport (the checks pass,
  the batch and the messages are stored) and whose transport response has
  \<open>successCount = 0\<close>, \<open>sendSMS\<close> fails with the error \<open>Failed to send SMS\<close>; the
  exception thrown at line 207, which carries the whole response, is caught at line 227
  and is the \<open>additionalInfo\<close> of the exception that leaves the function. No counter
  increment is started.
\<close>

theorem sendSMS_delivery_failed:
  fixes E w deviceId dto device rs fcmMessages w2 response
  defines "msg \<equiv> js_or (message dto) (smsBody dto)"
  defines "w1 \<equiv> w\<lparr>billingCalls := billingCalls w @
                     [(device_user device, send_sms, JNum (int (length rs)))]\<rparr>"
  defines "batch \<equiv> \<lparr> batch_id = length (smsBatches w), batch_device = device_id device,
                       batch_message = msg, recipientCount = JNum (int (length rs)),
                       recipientPreview = getRecipientsPreview (map JStr rs) \<rparr>"
  assumes "findById w deviceId = Some device" and "enabled device"
      and "js_or (recipients dto) (receivers dto) = JArr rs" and "rs \<noteq> []"
      and "truthy msg"
      and "canPerformAction E (device_user device) send_sms (JNum (int (length rs))) = None"
      and "batchCreate E batch = None"
      and "createMessages E device batch msg rs (w1\<lparr>smsBatches := smsBatches w1 @ [batch]\<rparr>) []
             = (Inr fcmMessages, w2)"
      and "sendEach E (length (fcmCalls w2)) fcmMessages = Inr response"
      and "successCount response = 0"
  shows "sendSMS E w deviceId dto =
           (Inl (HttpException (Some False) ''Failed to send SMS''
                   (ErrorInfo (HttpException (Some False) ''Failed to send SMS''
                                 (ResponseInfo response) BAD_REQUEST))
                   BAD_REQUEST),
            w2\<lparr>fcmCalls := fcmCalls w2 @ [fcmMessages]\<rparr>)
         \<and> counterUpdates (w2\<lparr>fcmCalls := fcmCalls w2 @ [fcmMessages]\<rparr>) = counterUpdates w"
proof -
  have start: "sendSMS E w deviceId dto = sendSMS_dispatch E deviceId device msg (JArr rs)
          (JNum (int (length rs))) w1"
    using assms(4-9) unfolding msg_def w1_def by (rule sendSMS_valid)
  have tried: "sendSMS_try E deviceId fcmMessages w2 =
          (Inl (HttpException (Some False) ''Failed to send SMS'' (ResponseInfo response)
                  BAD_REQUEST), w2\<lparr>fcmCalls := fcmCalls w2 @ [fcmMessages]\<rparr>)"
    using assms(12,13) by (simp add: sendSMS_try_def Let_def)
  have "smsBatches w1 = smsBatches w" by (simp add: w1_def)
  then have res: "sendSMS E w deviceId dto =
           (Inl (HttpException (Some False) ''Failed to send SMS''
                   (ErrorInfo (HttpException (Some False) ''Failed to send SMS''
                                 (ResponseInfo response) BAD_REQUEST))
                   BAD_REQUEST),
            w2\<lparr>fcmCalls := fcmCalls w2 @ [fcmMessages]\<rparr>)"
    using start tried assms(10,11) by (simp add: sendSMS_dispatch_def Let_def batch_def)
  have "counterUpdates w2 = counterUpdates (w1\<lparr>smsBatches := smsBatches w1 @ [batch]\<rparr>)"
    using createMessages_frame [OF assms(11)] by simp
  then have "counterUpdates w2 = counterUpdates w" by (simp add: w1_def)
  with res show ?thesis by simp
qed

theorem sendSMS_delivery_failed_witness:
  "fst (sendSMS env_rejecting world0 ''d1'' send_two) =
     Inl (HttpException (Some False) ''Failed to send SMS''
            (ErrorInfo (HttpException (Some False) ''Failed to send SMS''
               (ResponseInfo \<lparr> responses = [\<lparr> sr_success = False, messageId = None \<rparr>,
                                              \<lparr> sr_success = False, messageId = None \<rparr>],
                                successCount = 0, failureCount = 2 \<rparr>) BAD_REQUEST))
            BAD_REQUEST)
   \<and> counterUpdates (snd (sendSMS env_rejecting world0 ''d1'' send_two)) = []
   \<and> length (smsList (snd (sendSMS env_rejecting world0 ''d1'' send_two))) = 2"
  using sendSMS_delivery_failed [where w = world0 and deviceId = "''d1''" and device = phone
      and dto = send_two and rs = "[''+15551234'', ''+15555678'']" and E = env_rejecting
      and fcmMessages = "[\<lparr> smsData = \<lparr> smsId = 0, smsBatchId = 0, data_message = JStr ''hi'',
                        data_recipients = [''+15551234''], data_smsBody = JStr ''hi'',
                        data_receivers = [''+15551234''] \<rparr>, token = ''tok1'', priority = ''high'' \<rparr>,
         \<lparr> smsData = \<lparr> smsId = 1, smsBatchId = 0, data_message = JStr ''hi'',
                        data_recipients = [''+15555678''], data_smsBody = JStr ''hi'',
                        data_receivers = [''+15555678''] \<rparr>, token = ''tok1'', priority = ''high'' \<rparr>]"
      and ?w2.0 = "world0\<lparr>billingCalls := [(''u1'', send_sms, JNum 2)],
           smsBatches := [\<lparr> batch_id = 0, batch_device = ''d1'', batch_message = JStr ''hi'',
                            recipientCount = JNum 2,
                            recipientPreview = JStr ''+15551234 and +15555678'' \<rparr>],
           smsList := [\<lparr> sms_id = 0, sms_device = ''d1'', smsBatch = Some 0,
                         sms_message = JStr ''hi'', sms_type = SENT, recipient = JStr ''+15551234'',
                         sender = JUndefined, requestedAt = Some (Date 0), receivedAt = None \<rparr>,
                       \<lparr> sms_id = 1, sms_device = ''d1'', smsBatch = Some 0,
                         sms_message = JStr ''hi'', sms_type = SENT, recipient = JStr ''+15555678'',
                         sender = JUndefined, requestedAt = Some (Date 1), receivedAt = None \<rparr>]\<rparr>"
      and response = "\<lparr> responses = [\<lparr> sr_success = False, messageId = None \<rparr>,
                                        \<lparr> sr_success = False, messageId = None \<rparr>],
                          successCount = 0, failureCount = 2 \<rparr>"]
  by (simp add: findById_def phone_def disabled_phone_def send_two_def js_or_def env_rejecting_def
      env_ok_def world0_def getRecipientsPreview_def Let_def)

section \<open>Single send: the recipient list\<close>

text \<open>
  Claim C2 says that a single-send request on an enabled device whose recipient list is
  missing fails with \<open>Invalid recipients\<close>, after the billing service has been asked.
  At a request with a message and no recipient list under either name, whose quota check
  would pass, the code does otherwise: line 121 reads \<^verbatim>\<open>length\<close> of \<^verbatim>\<open>undefined\<close>
  while it builds the arguments of the billing call, so the call ends with a
  \<open>TypeError\<close>, the billing service is never called, and the test
  \<^verbatim>\<open>!Array.isArray(recipients)\<close> of line 134, which would have answered
  \<open>Invalid recipients\<close>, is not reached.
\<close>

theorem sendSMS_missing_recipients_throws:
  "sendSMS env_ok world0 ''d1'' send_missing = (Inl TypeError, world0)
   \<and> billingCalls (snd (sendSMS env_ok world0 ''d1'' send_missing)) = []
   \<and> fst (sendSMS env_ok world0 ''d1'' send_missing) \<noteq>
       Inl (HttpException (Some False) ''Invalid recipients'' NoInfo BAD_REQUEST)"
  by (simp add: sendSMS_def findById_world0 world0_fields phone_def send_missing_def
      js_or_def env_ok_def Let_def)

theorem sendSMS_missing_recipients_throws_witness:
  "fst (sendSMS env_ok world0 ''d1'' send_missing) = Inl TypeError
   \<and> snd (sendSMS env_ok world0 ''d1'' send_missing) = world0"
  using sendSMS_missing_recipients_throws by simp

text \<open>
  What the code does when the recipient value has a \<^verbatim>\<open>length\<close> (it is neither
  \<^verbatim>\<open>undefined\<close> nor \<^verbatim>\<open>null\<close>) but is not a list, or is the empty list: the billing
  service is called first, with that \<^verbatim>\<open>length\<close> as the count, and the call is on record
  whatever follows; if it throws, that exception is the result; if it passes and the
  message is not blank, \<open>sendSMS\<close> fails with \<open>Invalid recipients\<close>.
\<close>

lemma sendSMS_invalid_recipients:
  fixes E w deviceId dto device n
  defines "rcpts \<equiv> js_or (recipients dto) (receivers dto)"
  defines "w1 \<equiv> w\<lparr>billingCalls := billingCalls w @ [(device_user device, send_sms, n)]\<rparr>"
  assumes "findById w deviceId = Some device" and "enabled device"
      and "js_length rcpts = Inr n"
      and "\<not> isArray rcpts \<or> rcpts = JArr []"
  shows "(\<forall>c. canPerformAction E (device_user device) send_sms n = Some c
             \<longrightarrow> sendSMS E w deviceId dto = (Inl (Thrown c), w1))
         \<and> (canPerformAction E (device_user device) send_sms n = None
               \<and> truthy (js_or (message dto) (smsBody dto))
             \<longrightarrow> sendSMS E w deviceId dto =
                   (Inl (HttpException (Some False) ''Invalid recipients'' NoInfo BAD_REQUEST), w1))"
proof -
  have "\<not> isArray rcpts \<or> n = JNum 0"
    using assms(5,6) by auto
  then show ?thesis
    using assms(3-5) unfolding rcpts_def w1_def
    by (auto simp: sendSMS_def Let_def)
qed

lemma sendSMS_invalid_recipients_example:
  "sendSMS env_ok world0 ''d1'' send_string =
     (Inl (HttpException (Some False) ''Invalid recipients'' NoInfo BAD_REQUEST),
      world0\<lparr>billingCalls := [(''u1'', send_sms, JNum 9)]\<rparr>)
   \<and> sendSMS env_no_quota world0 ''d1'' send_string =
     (Inl (Thrown ''quota exceeded''), world0\<lparr>billingCalls := [(''u1'', send_sms, JNum 9)]\<rparr>)"
  using sendSMS_invalid_recipients [where w = world0 and deviceId = "''d1''" and device = phone
      and dto = send_string and n = "JNum 9" and E = env_ok]
    sendSMS_invalid_recipients [where w = world0 and deviceId = "''d1''" and device = phone
      and dto = send_string and n = "JNum 9" and E = env_no_quota]
  by (simp add: findById_def phone_def disabled_phone_def send_string_def js_or_def env_ok_def
      env_no_quota_def world0_def)

section \<open>The device check, inbound and outbound\<close>



section \<open>Bulk send: the limit of 50 recipients\<close>

text \<open>
  Claim C6. For every bulk-send request on an enabled device whose recipients, counted
  over all messages, are more than 50: the billing service is called first, with that
  count; if it passes, \<open>sendBulkSMS\<close> fails with
  \<open>Maximum of 50 recipients per batch is allowed\<close>; if it throws, its exception is the
  result. Either way the only effect is the recorded billing call: no batch record and
  no message is stored and the transport is not called.
\<close>

theorem sendBulkSMS_recipient_limit:
  fixes E w deviceId body device msgs
  defines "declared \<equiv> length (flat (map recipients msgs))"
  defines "w1 \<equiv> w\<lparr>billingCalls := billingCalls w @
                     [(device_user device, bulk_send_sms, JNum (int declared))]\<rparr>"
  assumes "findById w deviceId = Some device" and "enabled device"
      and "messages body = Some msgs" and "declared > 50"
  shows "(canPerformAction E (device_user device) bulk_send_sms (JNum (int declared)) = None
            \<longrightarrow> sendBulkSMS E w deviceId body =
                  (Inl (HttpException (Some False)
                          ''Maximum of 50 recipients per batch is allowed'' NoInfo BAD_REQUEST), w1))
         \<and> (\<forall>c. canPerformAction E (device_user device) bulk_send_sms (JNum (int declared)) = Some c
              \<longrightarrow> sendBulkSMS E w deviceId body = (Inl (Thrown c), w1))
         \<and> smsBatches w1 = smsBatches w \<and> smsList w1 = smsList w \<and> fcmCalls w1 = fcmCalls w"
proof -
  have "msgs \<noteq> []" and "flat (map recipients msgs) \<noteq> []"
    using assms(6) unfolding declared_def by auto
  then show ?thesis
    using assms(3-6) unfolding declared_def w1_def
    by (simp add: sendBulkSMS_def Let_def)
qed

theorem sendBulkSMS_recipient_limit_witness:
  "sendBulkSMS env_ok world0 ''d1'' bulk_51 =
     (Inl (HttpException (Some False) ''Maximum of 50 recipients per batch is allowed'' NoInfo
             BAD_REQUEST),
      world0\<lparr>billingCalls := [(''u1'', bulk_send_sms, JNum 51)]\<rparr>)
   \<and> smsBatches (snd (sendBulkSMS env_ok world0 ''d1'' bulk_51)) = []
   \<and> sendBulkSMS env_no_quota world0 ''d1'' bulk_51 =
     (Inl (Thrown ''quota exceeded''),
      world0\<lparr>billingCalls := [(''u1'', bulk_send_sms, JNum 51)]\<rparr>)"
  using sendBulkSMS_recipient_limit [where w = world0 and deviceId = "''d1''" and device = phone
      and body = bulk_51 and E = env_ok
      and msgs = "[\<lparr> message = JStr ''hello'', smsBody = JUndefined,
                      recipients = JArr (replicate 51 ''+15551234''),
                      receivers = JUndefined \<rparr>]"]
    sendBulkSMS_recipient_limit [where w = world0 and deviceId = "''d1''" and device = phone
      and body = bulk_51 and E = env_no_quota
      and msgs = "[\<lparr> message = JStr ''hello'', smsBody = JUndefined,
                      recipients = JArr (replicate 51 ''+15551234''),
                      receivers = JUndefined \<rparr>]"]
  by (simp add: findById_world0 world0_fields phone_def bulk_51_def env_ok_def env_no_quota_def)

section \<open>Bulk send: a message without a recipient list\<close>

text \<open>
  Claim C7 says that a message of a bulk request whose recipient list is invalid is
  skipped and causes no error. At a request that passes the four checks and whose first
  message has no \<open>recipients\<close> field, the code does otherwise: line 288 reads
  \<^verbatim>\<open>length\<close> of \<^verbatim>\<open>undefined\<close> while the batch record is built, and the whole call
  ends with a \<open>TypeError\<close>, before the loop that would have skipped the message and
  sent the second one.
\<close>

theorem sendBulkSMS_missing_recipients_throws:
  "sendBulkSMS env_ok world0 ''d1'' bulk_legacy =
     (Inl TypeError, world0\<lparr>billingCalls := [(''u1'', bulk_send_sms, JNum 2)]\<rparr>)"
  by (simp add: sendBulkSMS_def sendBulkSMS_dispatch_def findById_world0 world0_fields phone_def
      bulk_legacy_def env_ok_def Let_def)

text \<open>
  What the bulk loop does otherwise. A message with a blank body, or with recipients that
  are not a list or are an empty list, is passed over: the state and the responses
  collected so far stay as they are.
\<close>

lemma bulkLoop_skips:
  "\<not> truthy (message d) \<or> \<not> isArray (recipients d) \<or> elems (recipients d) = [] \<Longrightarrow>
     bulkLoop E deviceId dev b (d # rest) w rs = bulkLoop E deviceId dev b rest w rs"
  by auto

text \<open>
  An exception of the transport leaves the messages stored and the call on record, adds no
  response, and the loop goes on with the next message.
\<close>

lemma bulkLoop_transport_exception:
  assumes "truthy (message d)" and "recipients d = JArr xs" and "xs \<noteq> []"
      and "createMessages E dev b (message d) xs w [] = (Inr fcmMessages, w1)"
      and "sendEach E (length (fcmCalls w1)) fcmMessages = Inl c"
  shows "bulkLoop E deviceId dev b (d # rest) w rs =
           bulkLoop E deviceId dev b rest (w1\<lparr>fcmCalls := fcmCalls w1 @ [fcmMessages]\<rparr>) rs"
  using assms by (simp add: Let_def)

text \<open>
  When the store accepts every message, the loop ends with a list of responses whatever
  the transport does.
\<close>

lemma bulkLoop_total:
  assumes "\<forall>s. smsCreate E s = None"
  shows "\<exists>rs' w'. bulkLoop E deviceId dev b ms w rs = (Inr (rs @ rs'), w')"
proof (induction ms arbitrary: w rs)
  case Nil
  then show ?case by simp
next
  case (Cons d rest)
  show ?case
  proof (cases "\<not> truthy (message d) \<or> \<not> isArray (recipients d) \<or> elems (recipients d) = []")
    case True
    then show ?thesis using Cons.IH [of w rs] by (simp only: bulkLoop_skips)
  next
    case False
    obtain fcmMessages w1 where
      cm: "createMessages E dev b (message d) (elems (recipients d)) w [] = (Inr fcmMessages, w1)"
      using createMessages_total [OF assms] by blast
    show ?thesis
    proof (cases "sendEach E (length (fcmCalls w1)) fcmMessages")
      case (Inl c)
      with False cm Cons.IH [of "w1\<lparr>fcmCalls := fcmCalls w1 @ [fcmMessages]\<rparr>" rs]
      show ?thesis by (simp add: Let_def)
    next
      case (Inr response)
      from Cons.IH [of "w1\<lparr>fcmCalls := fcmCalls w1 @ [fcmMessages],
                          counterUpdates := counterUpdates w1 @
                            [(deviceId, Inc_sentSMSCount, successCount response)]\<rparr>"
                       "rs @ [response]"]
      obtain rs' w' where
        "bulkLoop E deviceId dev b rest
           (w1\<lparr>fcmCalls := fcmCalls w1 @ [fcmMessages],
                 counterUpdates := counterUpdates w1 @
                   [(deviceId, Inc_sentSMSCount, successCount response)]\<rparr>)
           (rs @ [response]) = (Inr (rs @ response # rs'), w')"
        by auto
      with False cm Inr show ?thesis by (simp add: Let_def)
    qed
  qed
qed

lemma map_length_defined:
  "\<forall>v \<in> set vs. v \<noteq> JUndefined \<and> v \<noteq> JNull \<Longrightarrow> \<exists>ns. map_length vs = Inr ns"
proof (induction vs)
  case Nil
  then show ?case by simp
next
  case (Cons v vs)
  then obtain ns where "map_length vs = Inr ns" by auto
  moreover from Cons.prems obtain n where "js_length v = Inr n"
    by (cases v) auto
  ultimately show ?case by simp
qed

text \<open>
  When every message of a request that passes the checks has a recipient value (a list or
  not) and the store accepts every document, \<open>sendBulkSMS\<close> returns a result: its
  counts are the totals, added as JavaScript numbers, over the responses it returns, and
  \<open>success\<close> says whether the total of the \<open>successCount\<close>s is positive. Where the
  magnitudes of the counts add up to at most \<open>2 ^ 53\<close>, the totals are the sums.
\<close>

lemma sendBulkSMS_aggregate:
  fixes E w deviceId body device msgs
  defines "declared \<equiv> length (flat (map recipients msgs))"
  assumes "findById w deviceId = Some device" and "enabled device"
      and "messages body = Some msgs"
      and "canPerformAction E (device_user device) bulk_send_sms (JNum (int declared)) = None"
      and "msgs \<noteq> []" and "0 < declared" and "declared \<le> 50"
      and "\<forall>m \<in> set msgs. recipients m \<noteq> JUndefined \<and> recipients m \<noteq> JNull"
      and "\<forall>b. batchCreate E b = None" and "\<forall>s. smsCreate E s = None"
  shows "\<exists>rs w'. sendBulkSMS E w deviceId body =
           (Inr \<lparr> success =
                    positive (foldl (\<lambda>acc m. js_plus acc (Fin (successCount m))) (Fin 0) rs),
                  total_successCount =
                    foldl (\<lambda>acc m. js_plus acc (Fin (successCount m))) (Fin 0) rs,
                  total_failureCount =
                    foldl (\<lambda>acc m. js_plus acc (Fin (failureCount m))) (Fin 0) rs,
                  fcmResponses = rs \<rparr>, w')
           \<and> ((\<Sum>r\<leftarrow>rs. \<bar>successCount r\<bar>) \<le> 2 ^ 53 \<longrightarrow>
                foldl (\<lambda>acc m. js_plus acc (Fin (successCount m))) (Fin 0) rs =
                  Fin (\<Sum>r\<leftarrow>rs. successCount r))
           \<and> ((\<Sum>r\<leftarrow>rs. \<bar>failureCount r\<bar>) \<le> 2 ^ 53 \<longrightarrow>
                foldl (\<lambda>acc m. js_plus acc (Fin (failureCount m))) (Fin 0) rs =
                  Fin (\<Sum>r\<leftarrow>rs. failureCount r))"
proof -
  let ?w1 = "w\<lparr>billingCalls := billingCalls w @
                 [(device_user device, bulk_send_sms, JNum (int declared))]\<rparr>"
  have start: "sendBulkSMS E w deviceId body =
                 sendBulkSMS_dispatch E deviceId device (messageTemplate body) msgs ?w1"
    using assms(2-8) unfolding declared_def by (simp add: sendBulkSMS_def Let_def)
  from assms(9) obtain ns where ns: "map_length (map recipients msgs) = Inr ns"
    using map_length_defined [of "map recipients msgs"] by auto
  let ?batch = "\<lparr> batch_id = length (smsBatches ?w1), batch_device = device_id device,
                   batch_message = messageTemplate body,
                   recipientCount = foldl js_add (JNum 0) ns,
                   recipientPreview = getRecipientsPreview (flat (map recipients msgs)) \<rparr>"
  from bulkLoop_total [OF assms(11), of deviceId device ?batch msgs
         "?w1\<lparr>smsBatches := smsBatches ?w1 @ [?batch]\<rparr>" "[]"]
  obtain rs w' where loop: "bulkLoop E deviceId device ?batch msgs
         (?w1\<lparr>smsBatches := smsBatches ?w1 @ [?batch]\<rparr>) [] = (Inr rs, w')"
    by auto
  have res: "sendBulkSMS_dispatch E deviceId device (messageTemplate body) msgs ?w1 =
          (Inr \<lparr> success =
                   positive (foldl (\<lambda>acc m. js_plus acc (Fin (successCount m))) (Fin 0) rs),
                 total_successCount =
                   foldl (\<lambda>acc m. js_plus acc (Fin (successCount m))) (Fin 0) rs,
                 total_failureCount =
                   foldl (\<lambda>acc m. js_plus acc (Fin (failureCount m))) (Fin 0) rs,
                 fcmResponses = rs \<rparr>, w')"
    using ns loop assms(10)
    by (simp add: sendBulkSMS_dispatch_def Let_def)
  have sc: "(\<Sum>r\<leftarrow>rs. \<bar>successCount r\<bar>) \<le> 2 ^ 53 \<longrightarrow>
                foldl (\<lambda>acc m. js_plus acc (Fin (successCount m))) (Fin 0) rs =
                  Fin (\<Sum>r\<leftarrow>rs. successCount r)"
    using foldl_js_plus_exact [of rs "\<lambda>m. Fin (successCount m)" successCount 0] by simp
  have fc: "(\<Sum>r\<leftarrow>rs. \<bar>failureCount r\<bar>) \<le> 2 ^ 53 \<longrightarrow>
                foldl (\<lambda>acc m. js_plus acc (Fin (failureCount m))) (Fin 0) rs =
                  Fin (\<Sum>r\<leftarrow>rs. failureCount r)"
    using foldl_js_plus_exact [of rs "\<lambda>m. Fin (failureCount m)" failureCount 0] by simp
  from start res sc fc show ?thesis
    by (intro exI [of _ rs] exI [of _ w']) simp
qed

end
